theory Spec2Isabelle
  imports Main
begin

section \<open>The wallet of backend/main.py\<close>

text \<open>
  The class \<open>Wallet\<close> keeps a pandas table of entries and a cached balance.
  The embedding follows the class method by method.

  \<^item> A Python \<open>str\<close> is a list of code points, so that \<open>len\<close> counts
    what Python counts and the two Cyrillic category names can be written down.
  \<^item> An optional argument (\<open>None\<close> by default) is an \<open>option\<close>.
  \<^item> Amounts are Python integers, as in tests/wallet.py. The menu passes floats,
    whose sums round; rounding is not modelled, so what is proved about sums is
    proved for integer amounts only. The table keeps integers in an int64 column:
    the sums taken at load wrap at 64 bits (\<open>int64\<close> below), and the running balance
    is the exact one as long as every value stays inside that range, which the
    theorem on runs of calls assumes through a bound on the amounts.
  \<^item> The table is the list of its rows. Its index is the range index
    \<open>0 .. len - 1\<close>: a fresh table has it, \<open>add_entry\<close> rebuilds it
    (\<open>ignore_index=True\<close>), and the file written by \<open>__save_data\<close> stores
    it as the id column. The id of a row is therefore its position.
  \<^item> What the code takes from its surroundings is a record \<open>env\<close>: the
    day of the call, the parser \<open>pd.to_datetime(_, format="%Y-%m-%d")\<close>, the
    character class \<open>\d\<close> of the \<open>re\<close> module, and the comparison of the
    date column with a search key, whose outcome depends on the dtype that pandas
    gave the column.
\<close>

type_synonym pystr = "nat list"

type_synonym calendar_date = "nat \<times> nat \<times> nat"

datatype date_cell =
    Timestamp calendar_date
  | DateObject calendar_date
  | DateText pystr

record entry =
  col_date :: date_cell
  col_category :: pystr
  col_amount :: int
  col_description :: pystr

record wallet =
  data :: "entry list"
  balance :: int
  saved :: "entry list option"

record env =
  today :: calendar_date
  to_datetime :: "pystr \<Rightarrow> calendar_date option"
  decimal_digit :: "nat \<Rightarrow> bool"
  date_column_eq :: "date_cell list \<Rightarrow> pystr \<Rightarrow> bool list option"

datatype exn = TypeError | ValueError | KeyError

datatype message =
    InsufficientFunds
  | CheckData
  | MissingFields
  | BadRecordNumber
  | CheckInput

datatype status = Saved | Reported "message list" | Uncaught exn

subsection \<open>Constants of the constructor\<close>

text \<open>The category names are the Russian words for income (Dohod) and expense (Rashod).\<close>

definition INCOME :: pystr where
  "INCOME = [1044, 1086, 1093, 1086, 1076]"

definition EXPENSE :: pystr where
  "EXPENSE = [1056, 1072, 1089, 1093, 1086, 1076]"

definition CATEGORIES :: "pystr list" where
  "CATEGORIES = [INCOME, EXPENSE]"

definition MAX_DESC_LENGTH :: nat where
  "MAX_DESC_LENGTH = 64"

text \<open>
  \<open>re.match(r"\d{4}-\d{2}-\d{2}", s)\<close> anchors the pattern at the start of
  \<open>s\<close> only: whatever follows the tenth character is not looked at. Code point
  45 is the hyphen.
\<close>

fun match_DATE_PATTERN :: "env \<Rightarrow> pystr \<Rightarrow> bool" where
  "match_DATE_PATTERN e (y1 # y2 # y3 # y4 # h1 # m1 # m2 # h2 # d1 # d2 # rest) =
     (decimal_digit e y1 \<and> decimal_digit e y2 \<and> decimal_digit e y3 \<and> decimal_digit e y4
      \<and> h1 = 45 \<and> decimal_digit e m1 \<and> decimal_digit e m2
      \<and> h2 = 45 \<and> decimal_digit e d1 \<and> decimal_digit e d2)"
| "match_DATE_PATTERN e s = False"

subsection \<open>Truth values of optional arguments\<close>

text \<open>
  Python's \<open>if x\<close>: \<open>None\<close>, the empty string and the number 0 are false.
\<close>

fun truthy_str :: "pystr option \<Rightarrow> bool" where
  "truthy_str None = False"
| "truthy_str (Some s) = (s \<noteq> [])"

fun truthy_num :: "int option \<Rightarrow> bool" where
  "truthy_num None = False"
| "truthy_num (Some a) = (a \<noteq> 0)"

subsection \<open>Loading and the initial balance\<close>

text \<open>
  The sum of the amounts of a category, as a number, and as \<open>Series.sum()\<close> and
  the subtraction of numpy compute it on int64 values: modulo \<open>2^64\<close>, read as a
  signed number.
\<close>

definition int64 :: "int \<Rightarrow> int" where
  "int64 x = (x + 2 ^ 63) mod 2 ^ 64 - 2 ^ 63"

definition income_total :: "entry list \<Rightarrow> int" where
  "income_total rows =
     sum_list (map col_amount (filter (\<lambda>r. col_category r = INCOME) rows))"

definition expense_total :: "entry list \<Rightarrow> int" where
  "expense_total rows =
     sum_list (map col_amount (filter (\<lambda>r. col_category r = EXPENSE) rows))"

definition income :: "entry list \<Rightarrow> int" where
  "income rows = int64 (income_total rows)"

definition expenses :: "entry list \<Rightarrow> int" where
  "expenses rows = int64 (expense_total rows)"

definition load_data :: "entry list option \<Rightarrow> entry list" where
  "load_data file = (case file of Some rows \<Rightarrow> rows | None \<Rightarrow> [])"

definition set_balance :: "wallet \<Rightarrow> wallet" where
  "set_balance w = w\<lparr>balance := int64 (income (data w) - expenses (data w))\<rparr>"

text \<open>
  \<open>Wallet(filename)\<close>: the argument is the table found in the file, \<open>None\<close>
  when the file does not exist.
\<close>

definition Wallet :: "entry list option \<Rightarrow> wallet" where
  "Wallet file = set_balance \<lparr>data = load_data file, balance = 0, saved = file\<rparr>"

definition get_balance :: "wallet \<Rightarrow> int" where
  "get_balance w = balance w"

definition save_data :: "wallet \<Rightarrow> wallet" where
  "save_data w = w\<lparr>saved := Some (data w)\<rparr>"

subsection \<open>The balance changers\<close>

text \<open>
  Each returns the exception raised (arithmetic on \<open>None\<close> is a TypeError) or the
  boolean result, what was printed, and the wallet.
\<close>

definition increase_balance :: "int option \<Rightarrow> wallet \<Rightarrow> exn + (bool \<times> message list \<times> wallet)" where
  "increase_balance amount w =
     (case amount of
        None \<Rightarrow> Inl TypeError
      | Some a \<Rightarrow> Inr (True, [], w\<lparr>balance := balance w + a\<rparr>))"

definition decrease_balance :: "int option \<Rightarrow> wallet \<Rightarrow> exn + (bool \<times> message list \<times> wallet)" where
  "decrease_balance amount w =
     (case amount of
        None \<Rightarrow> Inl TypeError
      | Some a \<Rightarrow>
          (let fake_balance = balance w - a
           in if fake_balance \<ge> 0 then Inr (True, [], w\<lparr>balance := fake_balance\<rparr>)
              else Inr (False, [InsufficientFunds], w)))"

definition BALANCE_CHANGERS ::
  "pystr \<Rightarrow> (int option \<Rightarrow> wallet \<Rightarrow> exn + (bool \<times> message list \<times> wallet)) option" where
  "BALANCE_CHANGERS c =
     (if c = INCOME then Some increase_balance
      else if c = EXPENSE then Some decrease_balance
      else None)"

subsection \<open>add_entry\<close>

text \<open>
  The date cell of the new row. \<open>None\<close> stands for the ValueError of the parser,
  which \<open>add_entry\<close> does not catch.
\<close>

definition new_entry_date :: "env \<Rightarrow> pystr option \<Rightarrow> date_cell option" where
  "new_entry_date e date =
     (case date of
        None \<Rightarrow> Some (DateObject (today e))
      | Some s \<Rightarrow>
          if match_DATE_PATTERN e s then map_option Timestamp (to_datetime e s)
          else Some (DateObject (today e)))"

text \<open>
  The condition is evaluated left to right, so the balance changer runs (and changes
  the balance) before the row is built. Calling the result of a failed dictionary
  lookup is a TypeError, caught like the one of a missing amount.
\<close>

definition add_entry ::
  "env \<Rightarrow> pystr option \<Rightarrow> pystr option \<Rightarrow> int option \<Rightarrow> pystr option \<Rightarrow> wallet \<Rightarrow> status \<times> wallet" where
  "add_entry e category date amount description w =
     (if truthy_str category \<and> truthy_str description
         \<and> length (the description) < MAX_DESC_LENGTH then
        (case BALANCE_CHANGERS (the category) of
           None \<Rightarrow> (Reported [MissingFields], w)
         | Some changer \<Rightarrow>
             (case changer amount w of
                Inl err \<Rightarrow> (Reported [MissingFields], w)
              | Inr (ok, printed, w1) \<Rightarrow>
                  if ok then
                    (case new_entry_date e date of
                       None \<Rightarrow> (Uncaught ValueError, w1)
                     | Some d \<Rightarrow>
                         (Saved,
                          save_data (w1\<lparr>data := data w1 @
                            [\<lparr>col_date = d, col_category = the category,
                              col_amount = the amount, col_description = the description\<rparr>]\<rparr>)))
                  else (Reported (printed @ [CheckData]), w1)))
      else (Reported [CheckData], w))"

subsection \<open>edit_entry\<close>

definition change_amount :: "pystr \<Rightarrow> nat \<Rightarrow> int \<Rightarrow> wallet \<Rightarrow> bool \<times> wallet" where
  "change_amount prev_category index amount w =
     (let category = col_category (data w ! index);
          prev_amount = col_amount (data w ! index)
                        * (- 1) ^ (if prev_category = category then 1 else 0);
          fake_balance = (if category = EXPENSE then balance w - prev_amount - amount
                          else balance w + prev_amount + amount)
      in if fake_balance \<ge> 0 then (True, w\<lparr>balance := fake_balance\<rparr>) else (False, w))"

definition change_category :: "pystr \<Rightarrow> nat \<Rightarrow> int option \<Rightarrow> wallet \<Rightarrow> bool \<times> wallet" where
  "change_category category index amount w =
     (let prev_amount = col_amount (data w ! index);
          curr_amount = (if truthy_num amount then the amount else prev_amount);
          fake_balance = (if category = EXPENSE then balance w - prev_amount - curr_amount
                          else balance w + prev_amount + curr_amount)
      in if fake_balance \<ge> 0
         then (True, if \<not> truthy_num amount then w\<lparr>balance := fake_balance\<rparr> else w)
         else (False, w))"

definition set_category :: "nat \<Rightarrow> pystr \<Rightarrow> wallet \<Rightarrow> wallet" where
  "set_category index v w = w\<lparr>data := (data w)[index := (data w ! index)\<lparr>col_category := v\<rparr>]\<rparr>"

definition set_date :: "nat \<Rightarrow> date_cell \<Rightarrow> wallet \<Rightarrow> wallet" where
  "set_date index v w = w\<lparr>data := (data w)[index := (data w ! index)\<lparr>col_date := v\<rparr>]\<rparr>"

definition set_amount :: "nat \<Rightarrow> int \<Rightarrow> wallet \<Rightarrow> wallet" where
  "set_amount index v w = w\<lparr>data := (data w)[index := (data w ! index)\<lparr>col_amount := v\<rparr>]\<rparr>"

definition set_description :: "nat \<Rightarrow> pystr \<Rightarrow> wallet \<Rightarrow> wallet" where
  "set_description index v w =
     w\<lparr>data := (data w)[index := (data w ! index)\<lparr>col_description := v\<rparr>]\<rparr>"

text \<open>The four steps of \<open>edit_entry\<close>, in the order of the source.\<close>

definition edit_category_step :: "nat \<Rightarrow> pystr option \<Rightarrow> int option \<Rightarrow> wallet \<Rightarrow> wallet" where
  "edit_category_step index category amount w =
     (if truthy_str category \<and> the category \<in> set CATEGORIES
         \<and> the category \<noteq> col_category (data w ! index) then
        (case change_category (the category) index amount w of
           (ok, w1) \<Rightarrow> if ok then set_category index (the category) w1 else w1)
      else w)"

text \<open>\<open>None\<close> is the ValueError of the parser, which \<open>edit_entry\<close> does not catch.\<close>

definition edit_date_step :: "env \<Rightarrow> nat \<Rightarrow> pystr option \<Rightarrow> wallet \<Rightarrow> wallet option" where
  "edit_date_step e index date w =
     (if truthy_str date \<and> match_DATE_PATTERN e (the date) then
        (case to_datetime e (the date) of
           None \<Rightarrow> None
         | Some d \<Rightarrow> Some (set_date index (Timestamp d) w))
      else Some w)"

definition edit_amount_step :: "pystr \<Rightarrow> nat \<Rightarrow> int option \<Rightarrow> wallet \<Rightarrow> wallet" where
  "edit_amount_step prev_category index amount w =
     (if truthy_num amount then
        (case change_amount prev_category index (the amount) w of
           (ok, w1) \<Rightarrow> if ok then set_amount index (the amount) w1 else w1)
      else w)"

definition edit_description_step :: "nat \<Rightarrow> pystr option \<Rightarrow> wallet \<Rightarrow> wallet" where
  "edit_description_step index description w =
     (if truthy_str description \<and> length (the description) < MAX_DESC_LENGTH
      then set_description index (the description) w
      else w)"

text \<open>
  A label outside the index is a KeyError, caught and reported; a negative number is
  not a label of the range index.
\<close>

definition edit_entry ::
  "env \<Rightarrow> int \<Rightarrow> pystr option \<Rightarrow> pystr option \<Rightarrow> int option \<Rightarrow> pystr option \<Rightarrow> wallet
     \<Rightarrow> status \<times> wallet" where
  "edit_entry e index category date amount description w =
     (if \<not> (0 \<le> index \<and> nat index < length (data w)) then (Reported [BadRecordNumber], w)
      else
        (let i = nat index;
             prev_category = col_category (data w ! i);
             w1 = edit_category_step i category amount w
         in case edit_date_step e i date w1 of
              None \<Rightarrow> (Uncaught ValueError, w1)
            | Some w2 \<Rightarrow>
                (let w3 = edit_amount_step prev_category i amount w2;
                     w4 = edit_description_step i description w3
                 in (Saved, save_data w4))))"

subsection \<open>search_entries\<close>



subsection \<open>Sequences of calls\<close>




subsection \<open>A sample environment\<close>

text \<open>
  Concrete inputs need a concrete environment. \<open>str\<close> writes an ASCII literal
  as code points. \<open>strptime_ymd\<close> is a parser for the format \<open>%Y-%m-%d\<close> with
  exact matching: ten characters, a month from 1 to 12, a day of that month, and a
  year that every nanosecond timestamp can hold; everything else is the ValueError.
  \<open>sample_column_eq\<close> compares the date column with a key. A column whose cells
  are all parsed timestamps, as \<open>add_entry\<close> builds it from dated entries (dtype
  datetime64), is compared by day: the key is parsed, and a cell is flagged when it is
  the timestamp of that day. Any other column (dtype object) is compared cell by
  cell, where only a text cell can equal a string.
\<close>

definition str :: "string \<Rightarrow> pystr" where
  "str s = map of_char s"

definition ascii_digit :: "nat \<Rightarrow> bool" where
  "ascii_digit c = (48 \<le> c \<and> c \<le> 57)"

definition leap_year :: "nat \<Rightarrow> bool" where
  "leap_year y = (y mod 4 = 0 \<and> (y mod 100 \<noteq> 0 \<or> y mod 400 = 0))"

definition days_in_month :: "nat \<Rightarrow> nat \<Rightarrow> nat" where
  "days_in_month y m =
     (if m = 2 then (if leap_year y then 29 else 28)
      else if m = 4 \<or> m = 6 \<or> m = 9 \<or> m = 11 then 30 else 31)"

fun strptime_ymd :: "pystr \<Rightarrow> calendar_date option" where
  "strptime_ymd [y1, y2, y3, y4, h1, m1, m2, h2, d1, d2] =
     (if list_all ascii_digit [y1, y2, y3, y4, m1, m2, d1, d2] \<and> h1 = 45 \<and> h2 = 45 then
        (let y = 1000 * (y1 - 48) + 100 * (y2 - 48) + 10 * (y3 - 48) + (y4 - 48);
             m = 10 * (m1 - 48) + (m2 - 48);
             d = 10 * (d1 - 48) + (d2 - 48)
         in if 1678 \<le> y \<and> y \<le> 2261 \<and> 1 \<le> m \<and> m \<le> 12
               \<and> 1 \<le> d \<and> d \<le> days_in_month y m
            then Some (y, m, d) else None)
      else None)"
| "strptime_ymd s = None"

fun is_Timestamp :: "date_cell \<Rightarrow> bool" where
  "is_Timestamp (Timestamp d) = True"
| "is_Timestamp c = False"

definition sample_column_eq :: "date_cell list \<Rightarrow> pystr \<Rightarrow> bool list option" where
  "sample_column_eq cells key =
     (if list_all is_Timestamp cells then
        (case strptime_ymd key of
           None \<Rightarrow> Some (map (\<lambda>c. False) cells)
         | Some d \<Rightarrow> Some (map (\<lambda>c. c = Timestamp d) cells))
      else Some (map (\<lambda>c. c = DateText key) cells))"

definition sample_env :: env where
  "sample_env = \<lparr>today = (2024, 5, 17), to_datetime = strptime_ymd,
                 decimal_digit = ascii_digit, date_column_eq = sample_column_eq\<rparr>"

subsection \<open>The checks of edit_entry, field by field\<close>

text \<open>
  What \<open>edit_entry\<close> decides for each field, written over the wallet as it is
  before the call. An amount counts with the sign of its category. The category is
  checked against the balance that the change would give, with the amount of the same
  call when one is supplied; the amount is checked under the category as the first
  step left it.
\<close>

definition signed_amount :: "pystr \<Rightarrow> int \<Rightarrow> int" where
  "signed_amount c a = (if c = EXPENSE then - a else a)"

definition category_check :: "wallet \<Rightarrow> nat \<Rightarrow> pystr option \<Rightarrow> int option \<Rightarrow> bool" where
  "category_check w i category amount =
     (truthy_str category \<and> the category \<in> set CATEGORIES
      \<and> the category \<noteq> col_category (data w ! i)
      \<and> 0 \<le> balance w
            - signed_amount (col_category (data w ! i)) (col_amount (data w ! i))
            + signed_amount (the category)
                (if truthy_num amount then the amount else col_amount (data w ! i)))"

definition date_check :: "env \<Rightarrow> pystr option \<Rightarrow> bool" where
  "date_check e date = (truthy_str date \<and> match_DATE_PATTERN e (the date))"

definition category_after :: "wallet \<Rightarrow> nat \<Rightarrow> pystr option \<Rightarrow> int option \<Rightarrow> pystr" where
  "category_after w i category amount =
     (if category_check w i category amount then the category
      else col_category (data w ! i))"

definition amount_check :: "wallet \<Rightarrow> nat \<Rightarrow> pystr option \<Rightarrow> int option \<Rightarrow> bool" where
  "amount_check w i category amount =
     (truthy_num amount
      \<and> 0 \<le> balance w
            - signed_amount (col_category (data w ! i)) (col_amount (data w ! i))
            + signed_amount (category_after w i category amount) (the amount))"

definition description_check :: "pystr option \<Rightarrow> bool" where
  "description_check description =
     (truthy_str description \<and> length (the description) < MAX_DESC_LENGTH)"

definition edited_row ::
  "env \<Rightarrow> wallet \<Rightarrow> nat \<Rightarrow> pystr option \<Rightarrow> pystr option \<Rightarrow> int option \<Rightarrow> pystr option \<Rightarrow> entry" where
  "edited_row e w i category date amount description =
     \<lparr>col_date = (if date_check e date then Timestamp (the (to_datetime e (the date)))
                  else col_date (data w ! i)),
      col_category = category_after w i category amount,
      col_amount = (if amount_check w i category amount then the amount
                    else col_amount (data w ! i)),
      col_description = (if description_check description then the description
                         else col_description (data w ! i))\<rparr>"

definition signed_row :: "entry \<Rightarrow> int" where
  "signed_row r = signed_amount (col_category r) (col_amount r)"

subsection \<open>The invariant\<close>



text \<open>
  The size of what a table and a run of calls can add up to: the absolute values of
  the stored amounts, and of the amounts passed to the calls.
\<close>

definition magnitude :: "entry list \<Rightarrow> int" where
  "magnitude rows = sum_list (map (\<lambda>r. \<bar>col_amount r\<bar>) rows)"




subsection \<open>Sample wallets\<close>

text \<open>
  The wallet of tests/wallet.py after its first \<open>add_entry\<close>, the same after a
  second one, the same after an income of 0 instead, a table with both categories
  and a date read from the file, and a run of three calls with its result.
\<close>

definition income_row :: "int \<Rightarrow> entry" where
  "income_row a = \<lparr>col_date = Timestamp (2022, 1, 1), col_category = INCOME, col_amount = a,
                   col_description = str ''Test income''\<rparr>"

definition one_income_wallet :: wallet where
  "one_income_wallet = \<lparr>data = [income_row 100], balance = 100, saved = Some [income_row 100]\<rparr>"

definition two_income_wallet :: wallet where
  "two_income_wallet =
     \<lparr>data = [income_row 100, income_row 100], balance = 200,
      saved = Some [income_row 100, income_row 100]\<rparr>"

definition zero_amount_wallet :: wallet where
  "zero_amount_wallet =
     \<lparr>data = [income_row 100, income_row 0], balance = 100,
      saved = Some [income_row 100, income_row 0]\<rparr>"

definition mixed_wallet :: wallet where
  "mixed_wallet =
     \<lparr>data = [income_row 100,
              \<lparr>col_date = DateText (str ''2023-03-04''), col_category = EXPENSE, col_amount = 30,
                col_description = str ''Bread''\<rparr>,
              income_row 30],
      balance = 100,
      saved = None\<rparr>"



text \<open>The unfolding rules that evaluate a call on concrete arguments.\<close>

lemmas constant_defs =
  INCOME_def EXPENSE_def CATEGORIES_def MAX_DESC_LENGTH_def

lemmas sample_defs =
  str_def sample_env_def ascii_digit_def leap_year_def days_in_month_def sample_column_eq_def

lemmas wallet_defs =
  income_row_def one_income_wallet_def two_income_wallet_def zero_amount_wallet_def
  mixed_wallet_def

lemmas load_defs =
  Wallet_def set_balance_def load_data_def income_def expenses_def income_total_def
  expense_total_def int64_def

lemmas add_defs =
  add_entry_def BALANCE_CHANGERS_def increase_balance_def decrease_balance_def
  new_entry_date_def

lemmas edit_defs =
  edit_entry_def edit_category_step_def edit_date_step_def edit_amount_step_def
  edit_description_step_def change_category_def change_amount_def
  set_category_def set_date_def set_amount_def set_description_def

section \<open>Auxiliary facts\<close>

lemma INCOME_neq_EXPENSE: "INCOME \<noteq> EXPENSE"
  by (simp add: constant_defs)

lemma in_CATEGORIES: "c \<in> set CATEGORIES \<longleftrightarrow> c = INCOME \<or> c = EXPENSE"
  by (auto simp: CATEGORIES_def)

lemma fake_balance_signed:
  assumes "c \<in> set CATEGORIES" and "oc \<in> set CATEGORIES" and "c \<noteq> oc"
  shows "(if c = EXPENSE then b - p - a else b + p + a)
           = b - signed_amount oc p + signed_amount c a"
  using assms INCOME_neq_EXPENSE by (auto simp: in_CATEGORIES signed_amount_def)

lemma change_category_eq:
  assumes "c \<in> set CATEGORIES" and "col_category (data w ! i) \<in> set CATEGORIES"
    and "c \<noteq> col_category (data w ! i)"
  shows "change_category c i amount w =
           (let fake = balance w - signed_row (data w ! i)
                       + signed_amount c (if truthy_num amount then the amount
                                          else col_amount (data w ! i))
            in (0 \<le> fake, if 0 \<le> fake \<and> \<not> truthy_num amount then w\<lparr>balance := fake\<rparr> else w))"
  unfolding change_category_def Let_def signed_row_def
  by (simp only: fake_balance_signed [OF assms]) simp

lemma change_amount_eq:
  assumes "pc \<in> set CATEGORIES" and "col_category (data w ! i) \<in> set CATEGORIES"
  shows "change_amount pc i a w =
           (let fake = balance w - signed_amount pc (col_amount (data w ! i))
                       + signed_amount (col_category (data w ! i)) a
            in (0 \<le> fake, if 0 \<le> fake then w\<lparr>balance := fake\<rparr> else w))"
  using assms INCOME_neq_EXPENSE
  by (auto simp: change_amount_def Let_def signed_amount_def in_CATEGORIES)

lemma edit_category_step_effect:
  assumes "i < length (data w)" and "col_category (data w ! i) \<in> set CATEGORIES"
  shows "edit_category_step i category amount w =
           w\<lparr>data := (data w)[i := (data w ! i)\<lparr>col_category := category_after w i category amount\<rparr>],
             balance := (if category_check w i category amount \<and> \<not> truthy_num amount
                         then balance w - signed_row (data w ! i)
                              + signed_amount (the category) (col_amount (data w ! i))
                         else balance w)\<rparr>"
proof (cases "truthy_str category \<and> the category \<in> set CATEGORIES
                \<and> the category \<noteq> col_category (data w ! i)")
  case False
  then have "\<not> category_check w i category amount"
    by (auto simp: category_check_def)
  moreover from False have "edit_category_step i category amount w = w"
    unfolding edit_category_step_def by (rule if_not_P)
  ultimately show ?thesis
    by (simp add: category_after_def)
next
  case True
  then have eq: "change_category (the category) i amount w =
           (let fake = balance w - signed_row (data w ! i)
                       + signed_amount (the category) (if truthy_num amount then the amount
                                          else col_amount (data w ! i))
            in (0 \<le> fake, if 0 \<le> fake \<and> \<not> truthy_num amount then w\<lparr>balance := fake\<rparr> else w))"
    using change_category_eq [of "the category" w i amount] assms(2) by simp
  show ?thesis
    using True
    by (simp add: edit_category_step_def eq Let_def category_after_def category_check_def
          set_category_def signed_row_def)
qed


lemma category_after_valid:
  "col_category (data w ! i) \<in> set CATEGORIES \<Longrightarrow> category_after w i category amount \<in> set CATEGORIES"
  by (simp add: category_after_def category_check_def)

lemma edit_amount_step_effect:
  assumes "i < length (data w)" and "pc \<in> set CATEGORIES"
    and "col_category (data w ! i) \<in> set CATEGORIES"
  shows "edit_amount_step pc i amount w =
           (let fake = balance w - signed_amount pc (col_amount (data w ! i))
                       + signed_amount (col_category (data w ! i)) (the amount)
            in if truthy_num amount \<and> 0 \<le> fake
               then w\<lparr>data := (data w)[i := (data w ! i)\<lparr>col_amount := the amount\<rparr>],
                      balance := fake\<rparr>
               else w)"
  by (simp add: edit_amount_step_def change_amount_eq [OF assms(2,3)] Let_def set_amount_def)

lemma edit_entry_effect:
  assumes "0 \<le> index" and "nat index < length (data w)"
    and "col_category (data w ! nat index) \<in> set CATEGORIES"
    and "date_check e date \<longrightarrow> to_datetime e (the date) \<noteq> None"
  shows "edit_entry e index category date amount description w =
           (Saved, save_data (w\<lparr>data := (data w)[nat index :=
                       edited_row e w (nat index) category date amount description],
                     balance := balance w - signed_row (data w ! nat index)
                       + signed_row (edited_row e w (nat index) category date amount description)\<rparr>))"
proof -
  define i where "i = nat index"
  define r where "r = data w ! i"
  define ca where "ca = category_after w i category amount"
  define w1 where "w1 = edit_category_step i category amount w"
  have valid: "col_category r \<in> set CATEGORIES" and len: "i < length (data w)"
    using assms by (simp_all add: i_def r_def)
  have ca_valid: "ca \<in> set CATEGORIES"
    using valid by (simp add: ca_def r_def category_after_valid)
  have w1: "w1 = w\<lparr>data := (data w)[i := r\<lparr>col_category := ca\<rparr>],
             balance := (if category_check w i category amount \<and> \<not> truthy_num amount
                         then balance w - signed_row r + signed_amount (the category) (col_amount r)
                         else balance w)\<rparr>"
    unfolding w1_def ca_def r_def using len valid
    by (simp only: r_def edit_category_step_effect)
  define dc where "dc = (if date_check e date then Timestamp (the (to_datetime e (the date)))
                  else col_date r)"
  define w2 where "w2 = w1\<lparr>data := (data w)[i := r\<lparr>col_category := ca, col_date := dc\<rparr>]\<rparr>"
  have step2: "edit_date_step e i date w1 = Some w2"
    using assms(4) len
    by (auto simp: edit_date_step_def date_check_def w2_def w1 dc_def set_date_def)
  define w3 where "w3 = edit_amount_step (col_category r) i amount w2"
  have w2_row: "data w2 ! i = r\<lparr>col_category := ca, col_date := dc\<rparr>" and len2: "i < length (data w2)"
    and bal2: "balance w2 = balance w1"
    and upd2: "\<And>x. (data w2)[i := x] = (data w)[i := x]"
    using len by (simp_all add: w2_def)
  have valid2: "col_category (data w2 ! i) \<in> set CATEGORIES"
    using ca_valid by (simp add: w2_row)
  have w3: "w3 = (let fake = balance w1 - signed_row r + signed_amount ca (the amount)
            in if truthy_num amount \<and> 0 \<le> fake
               then w2\<lparr>data := (data w)[i := r\<lparr>col_category := ca, col_date := dc, col_amount := the amount\<rparr>],
                      balance := fake\<rparr>
               else w2)"
    unfolding w3_def edit_amount_step_effect [OF len2 valid valid2]
    by (simp add: w2_row bal2 signed_row_def Let_def upd2)
  have amt: "amount_check w i category amount
               \<longleftrightarrow> truthy_num amount \<and> 0 \<le> balance w1 - signed_row r + signed_amount ca (the amount)"
    by (auto simp: amount_check_def w1 ca_def r_def signed_row_def)
  have cat_amt: "category_check w i category amount \<Longrightarrow> truthy_num amount
                   \<Longrightarrow> amount_check w i category amount"
    by (simp add: amount_check_def category_after_def) (simp add: category_check_def)
  have row: "edited_row e w i category date amount description =
               r\<lparr>col_category := ca, col_date := dc,
                 col_amount := (if amount_check w i category amount then the amount else col_amount r),
                 col_description := (if description_check description then the description
                                     else col_description r)\<rparr>"
    by (simp add: edited_row_def ca_def dc_def r_def)
  have final: "edit_description_step i description w3 =
          w\<lparr>data := (data w)[i := edited_row e w i category date amount description],
            balance := balance w - signed_row r
                       + signed_row (edited_row e w i category date amount description)\<rparr>"
    using len cat_amt
    by (auto simp: edit_description_step_def description_check_def set_description_def
          row w3 amt w2_def w1 Let_def signed_row_def ca_def category_after_def
          r_def [symmetric])
  show ?thesis
    using assms(1,2) step2 final
    by (simp add: edit_entry_def Let_def i_def [symmetric] r_def [symmetric]
          w1_def [symmetric] w3_def [symmetric])
qed

lemma add_entry_saved:
  assumes "add_entry e category date amount description w = (Saved, w')"
  shows "\<exists>c a s d. category = Some c \<and> c \<in> set CATEGORIES \<and> amount = Some a
           \<and> description = Some s \<and> s \<noteq> [] \<and> length s < MAX_DESC_LENGTH
           \<and> new_entry_date e date = Some d
           \<and> (c = EXPENSE \<longrightarrow> a \<le> balance w)
           \<and> w' = \<lparr>data = data w @ [\<lparr>col_date = d, col_category = c, col_amount = a,
                                      col_description = s\<rparr>],
                   balance = balance w + signed_amount c a,
                   saved = Some (data w @ [\<lparr>col_date = d, col_category = c, col_amount = a,
                                             col_description = s\<rparr>])\<rparr>"
proof -
  from assms obtain c s where cs: "category = Some c" "description = Some s"
    by (cases category; cases description) (auto simp: add_entry_def)
  from assms cs obtain a where a: "amount = Some a"
    by (cases amount)
       (auto simp: add_entry_def BALANCE_CHANGERS_def increase_balance_def decrease_balance_def
             split: if_splits)
  from assms cs a INCOME_neq_EXPENSE show ?thesis
    by (cases w)
       (auto simp: add_entry_def BALANCE_CHANGERS_def increase_balance_def decrease_balance_def
             save_data_def signed_amount_def in_CATEGORIES Let_def
             split: if_splits option.splits)
qed


lemma add_entry_status:
  "fst (add_entry e category date amount description w) \<noteq> Uncaught TypeError"
  "fst (add_entry e category date amount description w) \<noteq> Uncaught KeyError"
  by (auto simp: add_entry_def BALANCE_CHANGERS_def increase_balance_def decrease_balance_def
        Let_def split: if_splits option.splits)









lemma edit_entry_aborted:
  assumes "0 \<le> index" and "nat index < length (data w)"
    and "date_check e date" and "to_datetime e (the date) = None"
  shows "edit_entry e index category date amount description w
           = (Uncaught ValueError, edit_category_step (nat index) category amount w)"
  using assms by (simp add: edit_entry_def Let_def edit_date_step_def date_check_def)









lemma magnitude_nonneg: "0 \<le> magnitude rows"
  by (induction rows) (simp_all add: magnitude_def)









lemma one_income_wallet_built:
  "add_entry sample_env (Some INCOME) (Some (str ''2022-01-01'')) (Some 100)
     (Some (str ''Test income'')) (Wallet None) = (Saved, one_income_wallet)"
  by (simp add: constant_defs sample_defs load_defs add_defs save_data_def one_income_wallet_def
        income_row_def)

lemma two_income_wallet_built:
  "add_entry sample_env (Some INCOME) (Some (str ''2022-01-01'')) (Some 100)
     (Some (str ''Test income'')) one_income_wallet = (Saved, two_income_wallet)"
  by (simp add: constant_defs sample_defs add_defs save_data_def one_income_wallet_def
        two_income_wallet_def income_row_def)








section \<open>Properties of the wallet\<close>

subsection \<open>C1: the cached balance and the rows\<close>




subsection \<open>C2: amounts that are not positive\<close>

text \<open>
  C2. The sign of the amount is not checked. With a valid description and a date that
  is absent, does not match the pattern or is parsed, an \<open>add_entry\<close> with an
  amount \<open>a \<le> 0\<close> and the income category is saved: the row is appended and
  \<open>a\<close> is added to the balance. With the expense category it is saved as well
  whenever \<open>a \<le> balance\<close>, and \<open>a\<close> is subtracted. Only an absent amount is
  reported, and then nothing changes.
\<close>
theorem add_entry_nonpositive_amount:
  assumes "a \<le> 0" and "s \<noteq> []" and "length s < MAX_DESC_LENGTH"
    and "new_entry_date e date = Some d"
  shows "add_entry e (Some INCOME) date (Some a) (Some s) w =
           (Saved, \<lparr>data = data w @ [\<lparr>col_date = d, col_category = INCOME, col_amount = a,
                                       col_description = s\<rparr>],
                    balance = balance w + a,
                    saved = Some (data w @ [\<lparr>col_date = d, col_category = INCOME,
                                              col_amount = a, col_description = s\<rparr>])\<rparr>)
         \<and> (a \<le> balance w \<longrightarrow>
              add_entry e (Some EXPENSE) date (Some a) (Some s) w =
                (Saved, \<lparr>data = data w @ [\<lparr>col_date = d, col_category = EXPENSE, col_amount = a,
                                            col_description = s\<rparr>],
                         balance = balance w - a,
                         saved = Some (data w @ [\<lparr>col_date = d, col_category = EXPENSE,
                                                   col_amount = a, col_description = s\<rparr>])\<rparr>))
         \<and> add_entry e (Some INCOME) date None (Some s) w = (Reported [MissingFields], w)
         \<and> add_entry e (Some EXPENSE) date None (Some s) w = (Reported [MissingFields], w)"
  using assms INCOME_neq_EXPENSE
  by (cases w) (simp add: add_defs save_data_def constant_defs)

text \<open>An income of 0 on the wallet of the tests.\<close>

theorem add_entry_nonpositive_amount_witness:
  "(0::int) \<le> 0 \<and> str ''Nothing'' \<noteq> [] \<and> length (str ''Nothing'') < MAX_DESC_LENGTH
   \<and> new_entry_date sample_env (Some (str ''2022-01-01'')) = Some (Timestamp (2022, 1, 1))
   \<and> add_entry sample_env (Some INCOME) (Some (str ''2022-01-01'')) (Some 0)
        (Some (str ''Nothing'')) one_income_wallet
      = (Saved, \<lparr>data = data one_income_wallet @
                         [\<lparr>col_date = Timestamp (2022, 1, 1), col_category = INCOME,
                           col_amount = 0, col_description = str ''Nothing''\<rparr>],
                 balance = balance one_income_wallet + 0,
                 saved = Some (data one_income_wallet @
                         [\<lparr>col_date = Timestamp (2022, 1, 1), col_category = INCOME,
                           col_amount = 0, col_description = str ''Nothing''\<rparr>])\<rparr>)"
proof -
  have h1: "(0::int) \<le> 0" by simp
  have h2: "str ''Nothing'' \<noteq> []" and h3: "length (str ''Nothing'') < MAX_DESC_LENGTH"
    by (simp_all add: str_def MAX_DESC_LENGTH_def)
  have h4: "new_entry_date sample_env (Some (str ''2022-01-01'')) = Some (Timestamp (2022, 1, 1))"
    by (simp add: new_entry_date_def sample_defs)
  from add_entry_nonpositive_amount [OF h1 h2 h3 h4, of one_income_wallet] h1 h2 h3 h4
  show ?thesis by blast
qed

text \<open>An expense of -5 on the empty wallet is saved: one row, and the balance rises to 5.\<close>

theorem add_entry_nonpositive_amount_counterexample:
  "balance (Wallet None) = 0 \<and> data (Wallet None) = []
   \<and> fst (add_entry sample_env (Some EXPENSE) (Some (str ''2022-01-01'')) (Some (- 5))
            (Some (str ''Test expense'')) (Wallet None)) = Saved
   \<and> balance (snd (add_entry sample_env (Some EXPENSE) (Some (str ''2022-01-01'')) (Some (- 5))
            (Some (str ''Test expense'')) (Wallet None))) = 5
   \<and> length (data (snd (add_entry sample_env (Some EXPENSE) (Some (str ''2022-01-01''))
            (Some (- 5)) (Some (str ''Test expense'')) (Wallet None)))) = 1"
  by (simp add: constant_defs sample_defs load_defs add_defs save_data_def)

subsection \<open>C3: the edit of tests/wallet.py\<close>

text \<open>
  C3. On a wallet whose only row is an income of 100, with balance 100,
  \<open>edit_entry(0, category=Expense, amount=50)\<close> leaves balance 50 and sets the
  amount of row 0 to 50. The category of row 0 stays income: as an expense of 50 the
  row would take the balance to -50, so the category step is refused.
\<close>
theorem edit_income_to_smaller_expense:
  assumes "data w = [r]" and "col_category r = INCOME" and "col_amount r = 100"
    and "balance w = 100"
  shows "edit_entry e 0 (Some EXPENSE) None (Some 50) None w =
           (Saved, \<lparr>data = [r\<lparr>col_amount := 50\<rparr>], balance = 50,
                    saved = Some [r\<lparr>col_amount := 50\<rparr>]\<rparr>)"
  using assms INCOME_neq_EXPENSE
  by (cases w) (simp add: edit_defs save_data_def constant_defs Let_def)

text \<open>The same on the wallet of the tests.\<close>

theorem edit_income_to_smaller_expense_witness:
  "data one_income_wallet = [income_row 100] \<and> col_category (income_row 100) = INCOME
   \<and> col_amount (income_row 100) = 100 \<and> balance one_income_wallet = 100
   \<and> edit_entry sample_env 0 (Some EXPENSE) None (Some 50) None one_income_wallet =
           (Saved, \<lparr>data = [income_row 50], balance = 50, saved = Some [income_row 50]\<rparr>)"
  using edit_income_to_smaller_expense [of one_income_wallet "income_row 100" sample_env]
  by (simp add: one_income_wallet_def income_row_def)

text \<open>After that edit the category of row 0 is not the expense category.\<close>

theorem edit_income_to_smaller_expense_counterexample:
  "\<not> col_category (data (snd (edit_entry sample_env 0 (Some EXPENSE) None (Some 50) None
                                 one_income_wallet)) ! 0) = EXPENSE"
  by (simp add: one_income_wallet_def income_row_def edit_defs save_data_def constant_defs Let_def)

subsection \<open>C4: an expense larger than the balance\<close>

text \<open>
  C4. An \<open>add_entry\<close> with the expense category, a valid description and an amount
  greater than the balance prints the insufficient-funds message followed by the
  check-your-data message, and returns the wallet as it was: same balance, same rows.
\<close>
theorem add_entry_expense_insufficient_funds:
  assumes "s \<noteq> []" and "length s < MAX_DESC_LENGTH" and "balance w < a"
  shows "add_entry e (Some EXPENSE) date (Some a) (Some s) w
           = (Reported [InsufficientFunds, CheckData], w)"
  using assms INCOME_neq_EXPENSE
  by (simp add: add_entry_def BALANCE_CHANGERS_def decrease_balance_def EXPENSE_def)

text \<open>An expense of 101 against a balance of 100.\<close>

theorem add_entry_expense_insufficient_funds_witness:
  "str ''Rent'' \<noteq> [] \<and> length (str ''Rent'') < MAX_DESC_LENGTH \<and> balance one_income_wallet < 101
   \<and> add_entry sample_env (Some EXPENSE) (Some (str ''2022-01-02'')) (Some 101)
        (Some (str ''Rent'')) one_income_wallet
      = (Reported [InsufficientFunds, CheckData], one_income_wallet)"
  using add_entry_expense_insufficient_funds
          [of "str ''Rent''" one_income_wallet 101 sample_env "Some (str ''2022-01-02'')"]
  by (simp add: str_def MAX_DESC_LENGTH_def one_income_wallet_def)

subsection \<open>C5: the date of a new entry\<close>

text \<open>
  C5. What \<open>add_entry\<close> stores as the date of an income entry with valid fields. A
  string that begins with a match of the pattern and that the parser accepts is stored
  as the parsed timestamp. A string that does not begin with a match, and an absent
  date, give the day of the call. A string that begins with a match and that the
  parser refuses gives no row at all: the ValueError leaves \<open>add_entry\<close> after the
  balance changer has run, so the balance has changed and nothing is stored.
\<close>

theorem add_entry_date_handling:
  assumes "s \<noteq> []" and "length s < MAX_DESC_LENGTH"
  shows "(match_DATE_PATTERN e d \<and> to_datetime e d = Some t \<longrightarrow>
            add_entry e (Some INCOME) (Some d) (Some a) (Some s) w =
              (Saved, save_data (w\<lparr>data := data w @
                         [\<lparr>col_date = Timestamp t, col_category = INCOME, col_amount = a,
                           col_description = s\<rparr>],
                       balance := balance w + a\<rparr>)))
         \<and> (\<not> match_DATE_PATTERN e d \<longrightarrow>
            add_entry e (Some INCOME) (Some d) (Some a) (Some s) w =
              (Saved, save_data (w\<lparr>data := data w @
                         [\<lparr>col_date = DateObject (today e), col_category = INCOME,
                           col_amount = a, col_description = s\<rparr>],
                       balance := balance w + a\<rparr>)))
         \<and> add_entry e (Some INCOME) None (Some a) (Some s) w =
              (Saved, save_data (w\<lparr>data := data w @
                         [\<lparr>col_date = DateObject (today e), col_category = INCOME,
                           col_amount = a, col_description = s\<rparr>],
                       balance := balance w + a\<rparr>))
         \<and> (match_DATE_PATTERN e d \<and> to_datetime e d = None \<longrightarrow>
            add_entry e (Some INCOME) (Some d) (Some a) (Some s) w =
              (Uncaught ValueError, w\<lparr>balance := balance w + a\<rparr>))"
  using assms
  by (simp add: add_entry_def BALANCE_CHANGERS_def increase_balance_def new_entry_date_def
        save_data_def INCOME_def)

text \<open>
  On the empty wallet: \<open>2022-01-01abc\<close> and \<open>2022-13-45\<close> leave balance 100 and no
  row; \<open>2022-01-01\<close> is stored as that day; \<open>1 Jan 2022\<close> is stored as the day
  of the call.
\<close>

theorem add_entry_date_handling_witness:
  "str ''Test income'' \<noteq> [] \<and> length (str ''Test income'') < MAX_DESC_LENGTH
   \<and> match_DATE_PATTERN sample_env (str ''2022-01-01abc'')
   \<and> to_datetime sample_env (str ''2022-01-01abc'') = None
   \<and> add_entry sample_env (Some INCOME) (Some (str ''2022-01-01abc'')) (Some 100)
        (Some (str ''Test income'')) (Wallet None)
      = (Uncaught ValueError, \<lparr>data = [], balance = 100, saved = None\<rparr>)
   \<and> match_DATE_PATTERN sample_env (str ''2022-13-45'')
   \<and> to_datetime sample_env (str ''2022-13-45'') = None
   \<and> add_entry sample_env (Some INCOME) (Some (str ''2022-13-45'')) (Some 100)
        (Some (str ''Test income'')) (Wallet None)
      = (Uncaught ValueError, \<lparr>data = [], balance = 100, saved = None\<rparr>)
   \<and> match_DATE_PATTERN sample_env (str ''2022-01-01'')
   \<and> to_datetime sample_env (str ''2022-01-01'') = Some (2022, 1, 1)
   \<and> add_entry sample_env (Some INCOME) (Some (str ''2022-01-01'')) (Some 100)
        (Some (str ''Test income'')) (Wallet None)
      = (Saved, one_income_wallet)
   \<and> \<not> match_DATE_PATTERN sample_env (str ''1 Jan 2022'')
   \<and> add_entry sample_env (Some INCOME) (Some (str ''1 Jan 2022'')) (Some 100)
        (Some (str ''Test income'')) (Wallet None)
      = (Saved, \<lparr>data = [(income_row 100)\<lparr>col_date := DateObject (2024, 5, 17)\<rparr>],
                 balance = 100,
                 saved = Some [(income_row 100)\<lparr>col_date := DateObject (2024, 5, 17)\<rparr>]\<rparr>)"
  using add_entry_date_handling
          [where s = "str ''Test income''" and e = sample_env and d = "str ''2022-01-01abc''"
             and a = 100 and w = "Wallet None"]
        add_entry_date_handling
          [where s = "str ''Test income''" and e = sample_env and d = "str ''2022-13-45''"
             and a = 100 and w = "Wallet None"]
        add_entry_date_handling
          [where s = "str ''Test income''" and e = sample_env and d = "str ''2022-01-01''"
             and a = 100 and w = "Wallet None" and t = "(2022, 1, 1)"]
        add_entry_date_handling
          [where s = "str ''Test income''" and e = sample_env and d = "str ''1 Jan 2022''"
             and a = 100 and w = "Wallet None"]
  by (simp add: sample_defs MAX_DESC_LENGTH_def load_defs save_data_def wallet_defs)

subsection \<open>C6: the fields of an edit\<close>

text \<open>
  C6. What \<open>edit_entry\<close> does on an existing id whose row carries one of the two
  categories. With a date that is absent, empty, does not match the pattern or is
  parsed, the call is saved and replaces the row by \<open>edited_row\<close>: each of
  category, date, amount and description is replaced exactly when its check holds,
  whatever the checks of the other fields say, every other row is kept, and the
  balance moves by the signed amount of the new row minus that of the old one. With a
  date that begins with a match of the pattern and that the parser refuses, the
  ValueError leaves \<open>edit_entry\<close> after the category step: the amount and the
  description are not applied even when their checks hold, nothing is saved, and a
  category written together with a supplied amount stays in the table without its
  change of the balance.
\<close>
theorem edit_entry_applies_each_checked_field:
  assumes "0 \<le> index" and "nat index < length (data w)"
    and "col_category (data w ! nat index) \<in> set CATEGORIES"
  shows "((date_check e date \<longrightarrow> to_datetime e (the date) \<noteq> None) \<longrightarrow>
            edit_entry e index category date amount description w =
              (Saved, save_data (w\<lparr>data := (data w)[nat index :=
                          edited_row e w (nat index) category date amount description],
                        balance := balance w - signed_row (data w ! nat index)
                          + signed_row (edited_row e w (nat index) category date amount
                                          description)\<rparr>)))
         \<and> (date_check e date \<and> to_datetime e (the date) = None \<longrightarrow>
            edit_entry e index category date amount description w =
              (Uncaught ValueError,
               w\<lparr>data := (data w)[nat index := (data w ! nat index)
                            \<lparr>col_category := category_after w (nat index) category amount\<rparr>],
                 balance := (if category_check w (nat index) category amount
                                \<and> \<not> truthy_num amount
                             then balance w - signed_row (data w ! nat index)
                                  + signed_amount (the category)
                                      (col_amount (data w ! nat index))
                             else balance w)\<rparr>))"
  using assms edit_entry_effect [of index w e date category amount description]
    edit_entry_aborted [of index w e date category amount description]
  by (simp add: edit_category_step_effect)

text \<open>
  On the wallet with two incomes of 100. The date \<open>2022-13-45\<close> with the
  category expense, the amount 20 and a description: the category is written (200 -
  100 - 20 is not negative), the amount and the description are not, the balance is
  still 200 and nothing is saved. The date \<open>2023-03-04\<close> with the amount 150: the
  category is refused (200 - 100 - 150 is negative), the other three fields are
  applied.
\<close>

theorem edit_entry_applies_each_checked_field_witness:
  "(0::int) \<le> 0 \<and> nat 0 < length (data two_income_wallet)
   \<and> col_category (data two_income_wallet ! nat 0) \<in> set CATEGORIES
   \<and> date_check sample_env (Some (str ''2022-13-45''))
   \<and> to_datetime sample_env (the (Some (str ''2022-13-45''))) = None
   \<and> amount_check two_income_wallet 0 (Some EXPENSE) (Some 20)
   \<and> description_check (Some (str ''Rent''))
   \<and> edit_entry sample_env 0 (Some EXPENSE) (Some (str ''2022-13-45'')) (Some 20)
        (Some (str ''Rent'')) two_income_wallet
      = (Uncaught ValueError,
         \<lparr>data = [(income_row 100)\<lparr>col_category := EXPENSE\<rparr>, income_row 100],
          balance = 200,
          saved = Some [income_row 100, income_row 100]\<rparr>)
   \<and> date_check sample_env (Some (str ''2023-03-04''))
   \<and> to_datetime sample_env (the (Some (str ''2023-03-04''))) \<noteq> None
   \<and> edit_entry sample_env 0 (Some EXPENSE) (Some (str ''2023-03-04'')) (Some 150)
        (Some (str ''Rent'')) two_income_wallet
      = (Saved,
         \<lparr>data = [\<lparr>col_date = Timestamp (2023, 3, 4), col_category = INCOME, col_amount = 150,
                    col_description = str ''Rent''\<rparr>, income_row 100],
          balance = 250,
          saved = Some [\<lparr>col_date = Timestamp (2023, 3, 4), col_category = INCOME,
                          col_amount = 150, col_description = str ''Rent''\<rparr>, income_row 100]\<rparr>)"
proof -
  have h1: "(0::int) \<le> 0" by simp
  have h2: "nat 0 < length (data two_income_wallet)"
    by (simp add: two_income_wallet_def)
  have h3: "col_category (data two_income_wallet ! nat 0) \<in> set CATEGORIES"
    by (simp add: two_income_wallet_def income_row_def CATEGORIES_def)
  have bad: "date_check sample_env (Some (str ''2022-13-45''))"
      "to_datetime sample_env (the (Some (str ''2022-13-45''))) = None"
    by (simp_all add: date_check_def sample_defs)
  have good: "date_check sample_env (Some (str ''2023-03-04''))"
      "to_datetime sample_env (the (Some (str ''2023-03-04''))) \<noteq> None"
    by (simp_all add: date_check_def sample_defs)
  have checks: "category_check two_income_wallet 0 (Some EXPENSE) (Some 20)"
      "amount_check two_income_wallet 0 (Some EXPENSE) (Some 20)"
      "description_check (Some (str ''Rent''))"
    by (simp_all add: category_after_def category_check_def amount_check_def
          description_check_def signed_amount_def two_income_wallet_def income_row_def
          constant_defs str_def)
  have row: "edited_row sample_env two_income_wallet (nat 0) (Some EXPENSE)
          (Some (str ''2023-03-04'')) (Some 150) (Some (str ''Rent''))
        = \<lparr>col_date = Timestamp (2023, 3, 4), col_category = INCOME, col_amount = 150,
                    col_description = str ''Rent''\<rparr>"
    by (simp add: edited_row_def date_check_def category_after_def category_check_def
          amount_check_def description_check_def signed_amount_def two_income_wallet_def
          income_row_def constant_defs sample_defs)
  have aborted: "edit_entry sample_env 0 (Some EXPENSE) (Some (str ''2022-13-45'')) (Some 20)
        (Some (str ''Rent'')) two_income_wallet
      = (Uncaught ValueError,
         \<lparr>data = [(income_row 100)\<lparr>col_category := EXPENSE\<rparr>, income_row 100],
          balance = 200,
          saved = Some [income_row 100, income_row 100]\<rparr>)"
    using edit_entry_applies_each_checked_field
            [OF h1 h2 h3, of sample_env "Some (str ''2022-13-45'')" "Some EXPENSE" "Some 20"
               "Some (str ''Rent'')"] bad checks(1)
    by (simp add: category_after_def) (simp add: two_income_wallet_def)
  have applied: "edit_entry sample_env 0 (Some EXPENSE) (Some (str ''2023-03-04'')) (Some 150)
        (Some (str ''Rent'')) two_income_wallet
      = (Saved,
         \<lparr>data = [\<lparr>col_date = Timestamp (2023, 3, 4), col_category = INCOME, col_amount = 150,
                    col_description = str ''Rent''\<rparr>, income_row 100],
          balance = 250,
          saved = Some [\<lparr>col_date = Timestamp (2023, 3, 4), col_category = INCOME,
                          col_amount = 150, col_description = str ''Rent''\<rparr>, income_row 100]\<rparr>)"
    using edit_entry_applies_each_checked_field
            [OF h1 h2 h3, of sample_env "Some (str ''2023-03-04'')" "Some EXPENSE" "Some 150"
               "Some (str ''Rent'')"] good row
    by (simp add: save_data_def two_income_wallet_def signed_row_def signed_amount_def
          income_row_def constant_defs)
  from h1 h2 h3 bad good checks(2,3) aborted applied show ?thesis by blast
qed

subsection \<open>C7: an unknown category\<close>

text \<open>
  C7. An \<open>add_entry\<close> whose category is not empty and is not one of the two
  category names prints one message and returns the wallet as it was: the
  missing-fields message of the caught TypeError when the description is valid, the
  check-your-data message otherwise.
\<close>
theorem add_entry_unknown_category_rejected:
  assumes "c \<noteq> []" and "c \<notin> set CATEGORIES"
  shows "add_entry e (Some c) date amount description w =
           (Reported [if truthy_str description \<and> length (the description) < MAX_DESC_LENGTH
                      then MissingFields else CheckData], w)"
  using assms by (simp add: add_entry_def BALANCE_CHANGERS_def CATEGORIES_def)

text \<open>The call of \<open>test_add_entry_invalid_category\<close>.\<close>

theorem add_entry_unknown_category_rejected_witness:
  "str ''Invalid category'' \<noteq> [] \<and> str ''Invalid category'' \<notin> set CATEGORIES
   \<and> add_entry sample_env (Some (str ''Invalid category'')) (Some (str ''2022-01-01''))
        (Some 100) (Some (str ''Test income'')) (Wallet None)
      = (Reported [MissingFields], \<lparr>data = [], balance = 0, saved = None\<rparr>)"
  using add_entry_unknown_category_rejected
          [of "str ''Invalid category''" sample_env "Some (str ''2022-01-01'')" "Some 100"
              "Some (str ''Test income'')" "Wallet None"]
  by (simp add: constant_defs str_def load_defs)

subsection \<open>C8: the criteria of a search\<close>




subsection \<open>C9: the row that add_entry appends\<close>

text \<open>
  C9. A saved \<open>add_entry\<close> appends exactly one row, made of its arguments. The rows
  that were there keep their ids and their contents, and the id of the new row is the
  number of rows before the call.
\<close>
theorem add_entry_appends_one_row:
  assumes "add_entry e category date amount description w = (Saved, w')"
  shows "\<exists>row. data w' = data w @ [row]
           \<and> enumerate 0 (data w') = enumerate 0 (data w) @ [(length (data w), row)]
           \<and> category = Some (col_category row) \<and> amount = Some (col_amount row)
           \<and> description = Some (col_description row)
           \<and> new_entry_date e date = Some (col_date row)"
  using add_entry_saved [OF assms] by (auto simp: enumerate_append_eq)

text \<open>The second income of 100.\<close>

theorem add_entry_appends_one_row_witness:
  "add_entry sample_env (Some INCOME) (Some (str ''2022-01-01'')) (Some 100)
     (Some (str ''Test income'')) one_income_wallet = (Saved, two_income_wallet)
   \<and> (\<exists>row. data two_income_wallet = data one_income_wallet @ [row]
           \<and> enumerate 0 (data two_income_wallet)
               = enumerate 0 (data one_income_wallet) @ [(length (data one_income_wallet), row)]
           \<and> Some INCOME = Some (col_category row) \<and> Some 100 = Some (col_amount row)
           \<and> Some (str ''Test income'') = Some (col_description row)
           \<and> new_entry_date sample_env (Some (str ''2022-01-01'')) = Some (col_date row))"
  using add_entry_appends_one_row [OF two_income_wallet_built] two_income_wallet_built
  by simp

subsection \<open>C10: false values count as absent\<close>



end
